theory Spec2Isabelle
  imports Complex_Main
begin

section \<open>Nodal data of the dynamic Lagrangian LES model\<close>

text \<open>
  The module \<^verbatim>\<open>solvers/NSfracStep/LES/DynamicLagrangian.py\<close> has two functions,
  \<^verbatim>\<open>les_setup\<close> and \<^verbatim>\<open>les_update\<close>. Every field they handle is a function of the
  piecewise linear space CG1, read and written through its array of nodal values
  (\<^verbatim>\<open>f.vector().array()\<close>, \<^verbatim>\<open>f.vector().set_local(...)\<close>). A nodal array is a list of
  reals here and an assembled matrix is the list of its rows. Rounding is not modelled:
  the arithmetic is that of the reals.
\<close>

type_synonym vec = "real list"
type_synonym matrix = "real list list"

text \<open>
  The exceptions of the Python code are values. \<open>NonFinite\<close> is not an exception:
  numpy divides by zero with a warning and stores \<^verbatim>\<open>inf\<close> or \<^verbatim>\<open>nan\<close>. The reals
  have no such value, so a run that divides by zero leaves the model, and \<open>NonFinite\<close>
  is the result that says so. \<open>ValueError\<close> is numpy's on arrays whose shapes do not
  fit, \<open>SizeError\<close> the library's on an array that has not the size of the vector it
  is written to.
\<close>

datatype error =
    KeyError string
  | ZeroDivisionError
  | ValueError
  | SizeError
  | NonFinite

subsection \<open>numpy on nodal arrays\<close>

text \<open>
  An elementwise operation pairs two arrays of one length, or stretches an array of
  length one along the other; other shapes raise \<^verbatim>\<open>ValueError\<close>.
\<close>

definition broadcast :: "vec \<Rightarrow> vec \<Rightarrow> error + (real \<times> real) list" where
  "broadcast a b =
     (if length a = length b then Inr (zip a b)
      else if length a = 1 then Inr (map (Pair (hd a)) b)
      else if length b = 1 then Inr (map (\<lambda>x. (x, hd b)) a)
      else Inl ValueError)"

definition np_divide :: "vec \<Rightarrow> vec \<Rightarrow> error + vec" where
  "np_divide a b =
     (case broadcast a b of
        Inl e \<Rightarrow> Inl e
      | Inr ps \<Rightarrow>
          if 0 \<in> set (map snd ps) then Inl NonFinite
          else Inr (map (\<lambda>p. fst p / snd p) ps))"

definition np_multiply :: "vec \<Rightarrow> vec \<Rightarrow> error + vec" where
  "np_multiply a b =
     (case broadcast a b of
        Inl e \<Rightarrow> Inl e
      | Inr ps \<Rightarrow> Inr (map (\<lambda>p. fst p * snd p) ps))"

text \<open>\<^verbatim>\<open>a.clip(max=m)\<close>: every entry above \<open>m\<close> becomes \<open>m\<close>; nothing bounds it below.\<close>

definition clip_max :: "vec \<Rightarrow> real \<Rightarrow> vec" where
  "clip_max a m = map (\<lambda>x. min x m) a"

text \<open>
  \<^verbatim>\<open>v.set_local(values)\<close> replaces the nodal values of a vector; the array must have
  the vector's size.
\<close>

definition set_local :: "vec \<Rightarrow> vec \<Rightarrow> error + vec" where
  "set_local v values = (if length values = length v then Inr values else Inl SizeError)"

subsection \<open>Function spaces, boundary conditions, solver objects\<close>

text \<open>
  A function space is known by its number of degrees of freedom and by the degrees of
  freedom that lie on each marked part of the boundary.
\<close>

record FunctionSpace =
  space_dim :: nat
  sub_domain_dofs :: "nat \<Rightarrow> nat list"

text \<open>\<^verbatim>\<open>Function(V)\<close>: the zero function of a space.\<close>

definition Function :: "FunctionSpace \<Rightarrow> vec" where
  "Function V = replicate (space_dim V) 0"

text \<open>
  A Dirichlet condition holds its (constant) boundary value, the marker of its part of
  the boundary and the degrees of freedom of its space on that part.
  \<^verbatim>\<open>bc.apply(x)\<close> writes the value at each of them (a degree of freedom of the
  space is an index of the vector; an index beyond the vector writes nothing here).
\<close>

record DirichletBC =
  bc_value :: real
  user_sub_domain :: nat
  bc_dofs :: "nat list"

definition new_DirichletBC :: "FunctionSpace \<Rightarrow> real \<Rightarrow> nat \<Rightarrow> DirichletBC" where
  "new_DirichletBC V g sbd =
     \<lparr>bc_value = g, user_sub_domain = sbd, bc_dofs = sub_domain_dofs V sbd\<rparr>"

definition bc_apply :: "DirichletBC \<Rightarrow> vec \<Rightarrow> vec" where
  "bc_apply bc x = fold (\<lambda>d y. y[d := bc_value bc]) (bc_dofs bc) x"

text \<open>\<^verbatim>\<open>[bc.apply(x) for bc in bcs]\<close>: the conditions are applied in list order.\<close>

definition apply_bcs :: "DirichletBC list \<Rightarrow> vec \<Rightarrow> vec" where
  "apply_bcs bcs x = fold bc_apply bcs x"

text \<open>
  The object \<^verbatim>\<open>nut_\<close> made by the factory \<^verbatim>\<open>CG1Function\<close>: its nodal vector and the
  boundary conditions it was given (\<^verbatim>\<open>nut_.bcs\<close>).
\<close>

record CG1Function =
  fn_vector :: vec
  fn_bcs :: "DirichletBC list"

text \<open>
  A Krylov solver object with the parameters the module touches.
  \<^verbatim>\<open>KrylovSolver(method, preconditioner)\<close> starts from the library's defaults, where
  a solve that does not converge is an error.
\<close>

record KrylovSolver =
  solver_method :: string
  preconditioner :: string
  preconditioner_structure :: string
  error_on_nonconvergence :: bool
  monitor_convergence :: bool
  report :: bool

definition new_KrylovSolver :: "string \<Rightarrow> string \<Rightarrow> KrylovSolver" where
  "new_KrylovSolver m pc =
     \<lparr>solver_method = m, preconditioner = pc,
      preconditioner_structure = ''different_nonzero_pattern'',
      error_on_nonconvergence = True, monitor_convergence = False, report = True\<rparr>"

text \<open>
  What an iteration hands back: the last iterate and whether the tolerance was met.
\<close>

record krylov_run =
  iterate :: vec
  converged :: bool

datatype solver_error = NonConvergence

text \<open>
  Modelled from the spec: the linear solver is the library's and not part of the
  module. A solve raises only when it has not converged and the solver's parameter
  \<^verbatim>\<open>error_on_nonconvergence\<close> is set; otherwise it returns the iterate it has.
\<close>

definition krylov_solve :: "KrylovSolver \<Rightarrow> krylov_run \<Rightarrow> solver_error + vec" where
  "krylov_solve sol r =
     (if \<not> converged r \<and> error_on_nonconvergence sol then Inl NonConvergence
      else Inr (iterate r))"

section \<open>The state bundle\<close>

text \<open>
  \<^verbatim>\<open>les_setup\<close> returns a dictionary that the solver passes back to every
  \<^verbatim>\<open>les_update\<close>. The record holds its numerical entries under the keys of the
  dictionary. The symbolic entries (\<^verbatim>\<open>Sij\<close>, \<^verbatim>\<open>nut_form\<close>, \<^verbatim>\<open>delta\<close>) and the
  interpolator \<^verbatim>\<open>ll\<close> carry no nodal data and are left out. The key \<^verbatim>\<open>nut_\<close> is
  the field \<open>nut\<close> (a name cannot end in an underscore).
\<close>

record les_state =
  nut :: CG1Function
  bcs_nut :: "DirichletBC list"
  delta_CG1_sq :: vec
  CG1 :: FunctionSpace
  Cs :: vec
  u_CG1 :: "vec list"
  u_filtered :: "vec list"
  Lij :: "vec list"
  Mij :: "vec list"
  Sijcomps :: "vec list"
  Sijfcomps :: "vec list"
  Sijmats :: "matrix list"
  JLM :: vec
  JMM :: vec
  dim :: nat
  tensdim :: nat
  G_matr :: matrix
  G_under :: vec
  dummy :: vec
  uiuj_pairs :: "(nat \<times> nat) list"
  Sij_sol :: KrylovSolver
  bcs_u_CG1 :: "string \<rightharpoonup> DirichletBC list"

section \<open>les_setup\<close>

text \<open>
  What the finite element library computes on the mesh for \<^verbatim>\<open>les_setup\<close>:
  the dimension \<^verbatim>\<open>mesh.geometry().dim()\<close>, the space \<^verbatim>\<open>FunctionSpace(mesh, "CG", 1)\<close>,
  the projection \<^verbatim>\<open>project(delta, CG1)\<close> of the cell size, the vector
  \<^verbatim>\<open>assemble(TestFunction(CG1)*dx)\<close> and the mass matrix \<^verbatim>\<open>assemble(inner(p,q)*dx)\<close>.
\<close>

record mesh =
  geometry_dim :: nat
  CG1_space :: FunctionSpace
  project_delta :: vec
  assemble_q :: vec
  assemble_pq :: matrix

text \<open>
  Lines 45 to 52: for each velocity component, in order, the conditions of the solver
  are rebuilt on CG1 from their value and their part of the boundary. A component
  without an entry in \<^verbatim>\<open>bcs\<close> raises \<^verbatim>\<open>KeyError\<close>.
\<close>

fun make_bcs_u_CG1 ::
  "FunctionSpace \<Rightarrow> (string \<rightharpoonup> DirichletBC list) \<Rightarrow> string list \<Rightarrow>
   (string \<rightharpoonup> DirichletBC list) \<Rightarrow> error + (string \<rightharpoonup> DirichletBC list)" where
  "make_bcs_u_CG1 V bcs [] acc = Inr acc"
| "make_bcs_u_CG1 V bcs (ui # rest) acc =
     (case bcs ui of
        None \<Rightarrow> Inl (KeyError ui)
      | Some l \<Rightarrow>
          make_bcs_u_CG1 V bcs rest
            (acc(ui \<mapsto> map (\<lambda>bc. new_DirichletBC V (bc_value bc) (user_sub_domain bc)) l)))"

text \<open>
  \<^verbatim>\<open>les_setup(u_, mesh, assemble_matrix, CG1Function, nut_krylov_solver, u_components, bcs)\<close>.
  The arguments \<open>assemble_matrix\<close>, \<open>derived_bcs\<close> and \<open>CG1Function\<close> are the callables
  of the surrounding solver: \<open>assemble_matrix i\<close> is the matrix of the form
  \<^verbatim>\<open>p.dx(i)*q*dx\<close>, \<open>derived_bcs V bs\<close> the conditions for the viscosity derived from
  those of the first velocity component, and \<open>CG1Function bs\<close> the new viscosity object
  with conditions \<open>bs\<close>. The velocity \<^verbatim>\<open>u_\<close> and the solver name only reach these
  callables and are part of them here.
\<close>

definition les_setup ::
  "mesh \<Rightarrow> (nat \<Rightarrow> matrix) \<Rightarrow> (FunctionSpace \<Rightarrow> DirichletBC list \<Rightarrow> DirichletBC list) \<Rightarrow>
   (DirichletBC list \<Rightarrow> CG1Function) \<Rightarrow> string list \<Rightarrow> (string \<rightharpoonup> DirichletBC list) \<Rightarrow>
   error + les_state" where
  "les_setup mesh assemble_matrix derived_bcs CG1Function u_components bcs =
     (let V = CG1_space mesh;
          d = geometry_dim mesh
      in
      if d = 0 then Inl ZeroDivisionError
      else
        (case bcs ''u0'' of
           None \<Rightarrow> Inl (KeyError ''u0'')
         | Some bcs_u0 \<Rightarrow>
             (case make_bcs_u_CG1 V bcs u_components Map.empty of
                Inl e \<Rightarrow> Inl e
              | Inr bcs_u \<Rightarrow>
                  (case np_divide [1] (assemble_q mesh) of
                     Inl e \<Rightarrow> Inl e
                   | Inr G_u \<Rightarrow>
                       Inr \<lparr>nut = CG1Function (derived_bcs V bcs_u0),
                            bcs_nut = derived_bcs V bcs_u0,
                            delta_CG1_sq = map (\<lambda>x. x ^ 2) (project_delta mesh),
                            CG1 = V,
                            Cs = Function V,
                            u_CG1 = map (\<lambda>i. Function V) [0..<d],
                            u_filtered = map (\<lambda>i. Function V) [0..<d],
                            Lij = map (\<lambda>i. Function V) [0..<d * d],
                            Mij = map (\<lambda>i. Function V) [0..<d * d],
                            Sijcomps = map (\<lambda>i. Function V) [0..<d * d],
                            Sijfcomps = map (\<lambda>i. Function V) [0..<d * d],
                            Sijmats = map assemble_matrix [0..<d],
                            JLM = map (\<lambda>x. x + 1 / 10 ^ 32) (Function V),
                            JMM = map (\<lambda>x. x + 1) (Function V),
                            dim = d,
                            tensdim = (if d = 3 then 6 else 3),
                            G_matr = assemble_pq mesh,
                            G_under = G_u,
                            dummy = Function V,
                            uiuj_pairs =
                              (if d = 3 then [(0,0),(0,1),(0,2),(1,1),(1,2),(2,2)]
                               else [(0,0),(0,1),(1,1)]),
                            Sij_sol =
                              (new_KrylovSolver ''cg'' ''default'')
                                \<lparr>preconditioner_structure := ''same_nonzero_pattern'',
                                 error_on_nonconvergence := False,
                                 monitor_convergence := False,
                                 report := False\<rparr>,
                            bcs_u_CG1 = bcs_u\<rparr>))))"

section \<open>les_update\<close>

text \<open>
  The arguments of \<^verbatim>\<open>les_update\<close> that the solver supplies anew at each call: the
  velocity \<^verbatim>\<open>u_ab\<close>, the component names, the time step \<^verbatim>\<open>dt\<close>, the step index
  \<^verbatim>\<open>tstep\<close> and the dictionary \<^verbatim>\<open>DynamicSmagorinsky\<close> of the model's settings.
\<close>

record ns_args =
  u_ab :: "vec list"
  u_components :: "string list"
  dt :: real
  tstep :: int
  DynamicSmagorinsky :: "string \<rightharpoonup> int"

text \<open>
  The callables \<^verbatim>\<open>les_update\<close> uses and this file does not define: the five functions
  imported from \<^verbatim>\<open>DynamicModules\<close> and the call \<^verbatim>\<open>nut_()\<close> of the viscosity object.
  Each is called with \<^verbatim>\<open>**vars()\<close>, that is with every argument and every object of the
  bundle by reference, so each is a function of the arguments and the bundle that
  returns the bundle as it has left it. The keyword arguments that name objects of
  the bundle are fixed at the one place of call: \<open>tophatfilter\<close> stands for the call
  with \<^verbatim>\<open>unfiltered=Cs, filtered=Cs\<close> and takes \<^verbatim>\<open>N\<close> and \<^verbatim>\<open>weight\<close>;
  \<open>lagrange_average\<close> for the call with \<^verbatim>\<open>J1=JLM, J2=JMM, Aij=Lij, Bij=Mij\<close>;
  \<open>compute_Lij\<close> and \<open>compute_Mij\<close> for the calls on \<^verbatim>\<open>u_CG1\<close> and \<^verbatim>\<open>u_filtered\<close>,
  the latter taking \<^verbatim>\<open>alphaval\<close> and returning the nodal array \<^verbatim>\<open>magS\<close>.
  The locals \<^verbatim>\<open>alpha\<close> and \<^verbatim>\<open>magS\<close> are in \<^verbatim>\<open>vars()\<close> at the later calls as well;
  they are immutable values that the averaging and the filter have no parameter for,
  and are not passed on here. A callable that raises is not modelled: each returns.
\<close>

record externals =
  dyn_u_ops :: "ns_args \<Rightarrow> les_state \<Rightarrow> les_state"
  compute_Lij :: "ns_args \<Rightarrow> les_state \<Rightarrow> les_state"
  compute_Mij :: "real \<Rightarrow> ns_args \<Rightarrow> les_state \<Rightarrow> vec \<times> les_state"
  lagrange_average :: "ns_args \<Rightarrow> les_state \<Rightarrow> les_state"
  tophatfilter :: "nat \<Rightarrow> real \<Rightarrow> ns_args \<Rightarrow> les_state \<Rightarrow> les_state"
  nut_call :: "ns_args \<Rightarrow> les_state \<Rightarrow> les_state"

text \<open>
  Lines 114 to 125: velocities to CG1 and filtered, \<^verbatim>\<open>Lij\<close>, \<^verbatim>\<open>Mij\<close> with
  \<^verbatim>\<open>alpha = 2.0\<close>, then the Lagrangian average. The result is \<^verbatim>\<open>magS\<close> and the bundle.
\<close>

definition tensors_and_average :: "externals \<Rightarrow> ns_args \<Rightarrow> les_state \<Rightarrow> vec \<times> les_state" where
  "tensors_and_average X a s =
     (let s1 = dyn_u_ops X a s;
          s2 = compute_Lij X a s1;
          alpha = 2;
          r = compute_Mij X alpha a s2
      in (fst r, lagrange_average X a (snd r)))"

text \<open>
  Lines 132 to 134:
  \<^verbatim>\<open>Cs.vector().set_local((JLM.vector().array()/JMM.vector().array()).clip(max=0.09))\<close>,
  then \<^verbatim>\<open>tophatfilter(unfiltered=Cs, filtered=Cs, N=2, weight=1., **vars())\<close>.
  \<open>clipped_ratio\<close> is the array handed to \<^verbatim>\<open>set_local\<close>.
\<close>

definition clipped_ratio :: "les_state \<Rightarrow> error + vec" where
  "clipped_ratio s =
     (case np_divide (JLM s) (JMM s) of
        Inl e \<Rightarrow> Inl e
      | Inr ratio \<Rightarrow> Inr (clip_max ratio (9 / 100)))"

definition update_Cs :: "externals \<Rightarrow> ns_args \<Rightarrow> les_state \<Rightarrow> error + les_state" where
  "update_Cs X a s =
     (case clipped_ratio s of
        Inl e \<Rightarrow> Inl e
      | Inr c \<Rightarrow>
          (case set_local (Cs s) c of
             Inl e \<Rightarrow> Inl e
           | Inr c' \<Rightarrow> Inr (tophatfilter X 2 1 a (s\<lparr>Cs := c'\<rparr>))))"

text \<open>
  Lines 137 to 139:
  \<^verbatim>\<open>nut_.vector().set_local(Cs.vector().array() * delta_CG1_sq.vector().array() * magS)\<close>,
  then \<^verbatim>\<open>[bc.apply(nut_.vector()) for bc in nut_.bcs]\<close>.
\<close>

definition update_nut :: "vec \<Rightarrow> les_state \<Rightarrow> error + les_state" where
  "update_nut magS s =
     (case np_multiply (Cs s) (delta_CG1_sq s) of
        Inl e \<Rightarrow> Inl e
      | Inr p \<Rightarrow>
          (case np_multiply p magS of
             Inl e \<Rightarrow> Inl e
           | Inr v \<Rightarrow>
               (case set_local (fn_vector (nut s)) v of
                  Inl e \<Rightarrow> Inl e
                | Inr v' \<Rightarrow>
                    Inr (s\<lparr>nut := (nut s)\<lparr>fn_vector := apply_bcs (fn_bcs (nut s)) v'\<rparr>\<rparr>))))"

text \<open>
  \<^verbatim>\<open>les_update\<close>. Line 108 reads \<^verbatim>\<open>DynamicSmagorinsky["Cs_comp_step"]\<close> (a missing key
  raises) and takes \<^verbatim>\<open>tstep\<close> modulo it (zero raises; the sign of Python's remainder is
  that of the divisor, as for \<open>mod\<close> on \<open>int\<close>). A nonzero remainder calls \<^verbatim>\<open>nut_()\<close>
  and returns.
\<close>

definition les_update :: "externals \<Rightarrow> ns_args \<Rightarrow> les_state \<Rightarrow> error + les_state" where
  "les_update X a s =
     (case DynamicSmagorinsky a ''Cs_comp_step'' of
        None \<Rightarrow> Inl (KeyError ''Cs_comp_step'')
      | Some k \<Rightarrow>
          if k = 0 then Inl ZeroDivisionError
          else if tstep a mod k \<noteq> 0 then Inr (nut_call X a s)
          else
            (let r = tensors_and_average X a s
             in case update_Cs X a (snd r) of
                  Inl e \<Rightarrow> Inl e
                | Inr s' \<Rightarrow> update_nut (fst r) s'))"

text \<open>The solver's time loop: one call of \<^verbatim>\<open>les_update\<close> per step, on the same bundle.\<close>

fun les_updates :: "externals \<Rightarrow> ns_args list \<Rightarrow> les_state \<Rightarrow> error + les_state" where
  "les_updates X [] s = Inr s"
| "les_updates X (a # rest) s =
     (case les_update X a s of
        Inl e \<Rightarrow> Inl e
      | Inr s' \<Rightarrow> les_updates X rest s')"

section \<open>The top-hat filter\<close>

text \<open>The product of an assembled matrix with a nodal array.\<close>

definition matvec :: "matrix \<Rightarrow> vec \<Rightarrow> vec" where
  "matvec A x = map (\<lambda>row. sum_list (map2 (*) row x)) A"

text \<open>
  Modelled from the spec: \<^verbatim>\<open>tophatfilter\<close> is defined in \<^verbatim>\<open>DynamicModules\<close>, which is
  not among the sources. One pass assembles the weighted nodal integral of the field
  (the mass matrix \<^verbatim>\<open>G_matr\<close> times the nodal array), multiplies pointwise by the
  lumped-mass inverse \<^verbatim>\<open>G_under\<close> and blends with the value before the pass by
  \<^verbatim>\<open>weight\<close> (weight one is the pure filter).
\<close>

definition filter_pass :: "matrix \<Rightarrow> vec \<Rightarrow> real \<Rightarrow> vec \<Rightarrow> vec" where
  "filter_pass G g w v =
     map (\<lambda>t. w * (fst t * fst (snd t)) + (1 - w) * snd (snd t))
       (zip (matvec G v) (zip g v))"

text \<open>
  Modelled from the spec: the filter applies the pass \<open>N\<close> times, here in place on
  \<^verbatim>\<open>Cs\<close> (\<^verbatim>\<open>unfiltered=Cs, filtered=Cs\<close>); no pass leaves the field as it is.
\<close>

definition tophatfilter_Cs :: "nat \<Rightarrow> real \<Rightarrow> ns_args \<Rightarrow> les_state \<Rightarrow> les_state" where
  "tophatfilter_Cs N w a s = s\<lparr>Cs := (filter_pass (G_matr s) (G_under s) w ^^ N) (Cs s)\<rparr>"

text \<open>
  The filter averages when the mass matrix has no negative entry and each entry of
  \<^verbatim>\<open>G_under\<close> is the inverse of its row sum. The mass matrix of CG1 and the vector
  \<^verbatim>\<open>1/assemble(TestFunction(CG1)*dx)\<close> are such a pair, since the hat functions are
  not negative and sum to one.
\<close>

definition averaging :: "matrix \<Rightarrow> vec \<Rightarrow> nat \<Rightarrow> bool" where
  "averaging G g n \<longleftrightarrow>
     length G = n \<and> length g = n \<and>
     (\<forall>i < n. length (G ! i) = n \<and> (\<forall>x \<in> set (G ! i). 0 \<le> x) \<and> g ! i * sum_list (G ! i) = 1)"

section \<open>The operators built at setup\<close>

text \<open>
  The cached \<^verbatim>\<open>delta_CG1_sq\<close>, the derivative matrices \<^verbatim>\<open>Sijmats\<close>, the filter's mass
  matrix \<^verbatim>\<open>G_matr\<close> with its lumped inverse \<^verbatim>\<open>G_under\<close>, and the boundary conditions
  \<^verbatim>\<open>bcs_u_CG1\<close> of the velocity components on CG1.
\<close>

definition operators ::
  "les_state \<Rightarrow> vec \<times> matrix list \<times> matrix \<times> vec \<times> (string \<rightharpoonup> DirichletBC list)" where
  "operators s = (delta_CG1_sq s, Sijmats s, G_matr s, G_under s, bcs_u_CG1 s)"

text \<open>
  The callables leave the operators as they are: the condition under which the
  operators stay fixed, since every callable receives them by reference.
\<close>

definition keep_operators :: "externals \<Rightarrow> bool" where
  "keep_operators X \<longleftrightarrow>
     (\<forall>a s. operators (dyn_u_ops X a s) = operators s) \<and>
     (\<forall>a s. operators (compute_Lij X a s) = operators s) \<and>
     (\<forall>alpha a s. operators (snd (compute_Mij X alpha a s)) = operators s) \<and>
     (\<forall>a s. operators (lagrange_average X a s) = operators s) \<and>
     (\<forall>N w a s. operators (tophatfilter X N w a s) = operators s) \<and>
     (\<forall>a s. operators (nut_call X a s) = operators s)"

section \<open>The update in the words of the specification\<close>

text \<open>
  Not the source: the coefficient as the specification words it, the square root of
  the ratio, clipped, then filtered twice, and the viscosity it gives,
  \<open>Cs\<^sup>2 \<cdot> delta\<^sup>2 \<cdot> |S|\<close>. They are compared with what \<open>les_update\<close> stores.
\<close>

definition Cs_as_specified :: "matrix \<Rightarrow> vec \<Rightarrow> vec \<Rightarrow> vec \<Rightarrow> vec" where
  "Cs_as_specified G g jlm jmm =
     (filter_pass G g 1 ^^ 2) (clip_max (map sqrt (map2 (/) jlm jmm)) (9 / 100))"

definition nut_as_specified :: "vec \<Rightarrow> vec \<Rightarrow> vec \<Rightarrow> vec" where
  "nut_as_specified cs dsq magS = map2 (*) (map2 (*) (map (\<lambda>c. c ^ 2) cs) dsq) magS"

section \<open>A mesh of one triangle\<close>

text \<open>
  One triangle of area \<open>1/4\<close>: three nodes, cell size \<open>1/2\<close>, the node \<open>0\<close> on the part
  of the boundary marked \<open>1\<close>. The mass matrix is that of the linear element.
\<close>

definition ex_space :: FunctionSpace where
  "ex_space = \<lparr>space_dim = 3, sub_domain_dofs = (\<lambda>m. if m = 1 then [0] else [])\<rparr>"

definition ex_mesh :: mesh where
  "ex_mesh =
     \<lparr>geometry_dim = 2,
      CG1_space = ex_space,
      project_delta = [1 / 2, 1 / 2, 1 / 2],
      assemble_q = [1 / 12, 1 / 12, 1 / 12],
      assemble_pq =
        [[1 / 24, 1 / 48, 1 / 48], [1 / 48, 1 / 24, 1 / 48], [1 / 48, 1 / 48, 1 / 24]]\<rparr>"

definition ex_assemble_matrix :: "nat \<Rightarrow> matrix" where
  "ex_assemble_matrix i =
     (if i = 0 then [[- 1 / 12, 1 / 12, 0], [- 1 / 12, 1 / 12, 0], [- 1 / 12, 1 / 12, 0]]
      else [[- 1 / 12, 0, 1 / 12], [- 1 / 12, 0, 1 / 12], [- 1 / 12, 0, 1 / 12]])"

definition ex_derived_bcs :: "FunctionSpace \<Rightarrow> DirichletBC list \<Rightarrow> DirichletBC list" where
  "ex_derived_bcs V bs = map (\<lambda>bc. new_DirichletBC V 0 (user_sub_domain bc)) bs"

definition ex_CG1Function :: "DirichletBC list \<Rightarrow> CG1Function" where
  "ex_CG1Function bs = \<lparr>fn_vector = [0, 0, 0], fn_bcs = bs\<rparr>"

definition ex_bcs :: "string \<rightharpoonup> DirichletBC list" where
  "ex_bcs =
     [''u0'' \<mapsto> [\<lparr>bc_value = 1, user_sub_domain = 1, bc_dofs = [0, 3]\<rparr>],
      ''u1'' \<mapsto> [\<lparr>bc_value = 0, user_sub_domain = 1, bc_dofs = [0, 3]\<rparr>]]"

text \<open>
  Callables for the examples. The average floors both memory fields at \<open>10\<^sup>-\<^sup>3\<^sup>2\<close> and
  the filter is the one modelled above; the viscosity call stores
  \<open>Cs \<cdot> delta_CG1_sq\<close> with the boundary values.
\<close>

definition ex_externals :: externals where
  "ex_externals =
     \<lparr>dyn_u_ops = (\<lambda>a s. s\<lparr>u_CG1 := u_ab a,
                               u_filtered := map (filter_pass (G_matr s) (G_under s) 1) (u_ab a)\<rparr>),
      compute_Lij = (\<lambda>a s. s),
      compute_Mij = (\<lambda>alpha a s. (map (\<lambda>x. alpha) (Cs s), s)),
      lagrange_average =
        (\<lambda>a s. s\<lparr>JLM := map (\<lambda>x. max x (1 / 10 ^ 32)) (JLM s),
                   JMM := map (\<lambda>x. max x (1 / 10 ^ 32)) (JMM s)\<rparr>),
      tophatfilter = tophatfilter_Cs,
      nut_call =
        (\<lambda>a s. s\<lparr>nut := (nut s)\<lparr>fn_vector :=
                   apply_bcs (fn_bcs (nut s)) (map2 (*) (Cs s) (delta_CG1_sq s))\<rparr>\<rparr>)\<rparr>"

definition ex_args :: "int \<Rightarrow> ns_args" where
  "ex_args t =
     \<lparr>u_ab = [[1, 1, 1], [0, 0, 0]], u_components = [''u0'', ''u1''], dt = 1 / 10, tstep = t,
      DynamicSmagorinsky = [''Cs_comp_step'' \<mapsto> 2]\<rparr>"

text \<open>The bundle that \<open>les_setup\<close> returns on this mesh.\<close>

definition ex_bundle :: les_state where
  "ex_bundle =
     \<lparr>nut = \<lparr>fn_vector = [0, 0, 0],
             fn_bcs = [\<lparr>bc_value = 0, user_sub_domain = 1, bc_dofs = [0]\<rparr>]\<rparr>,
      bcs_nut = [\<lparr>bc_value = 0, user_sub_domain = 1, bc_dofs = [0]\<rparr>],
      delta_CG1_sq = [1 / 4, 1 / 4, 1 / 4],
      CG1 = ex_space,
      Cs = [0, 0, 0],
      u_CG1 = [[0, 0, 0], [0, 0, 0]],
      u_filtered = [[0, 0, 0], [0, 0, 0]],
      Lij = [[0, 0, 0], [0, 0, 0], [0, 0, 0], [0, 0, 0]],
      Mij = [[0, 0, 0], [0, 0, 0], [0, 0, 0], [0, 0, 0]],
      Sijcomps = [[0, 0, 0], [0, 0, 0], [0, 0, 0], [0, 0, 0]],
      Sijfcomps = [[0, 0, 0], [0, 0, 0], [0, 0, 0], [0, 0, 0]],
      Sijmats = [ex_assemble_matrix 0, ex_assemble_matrix 1],
      JLM = [1 / 10 ^ 32, 1 / 10 ^ 32, 1 / 10 ^ 32],
      JMM = [1, 1, 1],
      dim = 2,
      tensdim = 3,
      G_matr = [[1 / 24, 1 / 48, 1 / 48], [1 / 48, 1 / 24, 1 / 48], [1 / 48, 1 / 48, 1 / 24]],
      G_under = [12, 12, 12],
      dummy = [0, 0, 0],
      uiuj_pairs = [(0, 0), (0, 1), (1, 1)],
      Sij_sol =
        \<lparr>solver_method = ''cg'', preconditioner = ''default'',
         preconditioner_structure = ''same_nonzero_pattern'',
         error_on_nonconvergence = False, monitor_convergence = False, report = False\<rparr>,
      bcs_u_CG1 =
        [''u0'' \<mapsto> [\<lparr>bc_value = 1, user_sub_domain = 1, bc_dofs = [0]\<rparr>],
         ''u1'' \<mapsto> [\<lparr>bc_value = 0, user_sub_domain = 1, bc_dofs = [0]\<rparr>]]\<rparr>"

text \<open>
  A bundle some steps into a run, given by its memory fields \<open>jlm\<close> and \<open>jmm\<close>, with
  a coefficient and a viscosity left by earlier steps.
\<close>

definition ex_state :: "vec \<Rightarrow> vec \<Rightarrow> les_state" where
  "ex_state jlm jmm =
     ex_bundle
       \<lparr>nut := \<lparr>fn_vector = [7, 7, 7],
                fn_bcs = [\<lparr>bc_value = 0, user_sub_domain = 1, bc_dofs = [0]\<rparr>]\<rparr>,
        Cs := [1 / 50, 1 / 50, 1 / 50],
        JLM := jlm,
        JMM := jmm\<rparr>"

section \<open>Facts about the array operations and the setup\<close>

lemma np_divide_same_length:
  assumes "length a = length b" and "0 \<notin> set b"
  shows "np_divide a b = Inr (map2 (/) a b)"
proof -
  have "map snd (zip a b) = b"
    using assms(1) by simp
  then have "0 \<notin> set (map snd (zip a b))"
    using assms(2) by simp
  moreover have "map (\<lambda>p. fst p / snd p) (zip a b) = map2 (/) a b"
    by (simp add: case_prod_beta)
  ultimately show ?thesis
    using assms(1) unfolding np_divide_def broadcast_def by simp
qed

lemma np_multiply_same_length:
  "length a = length b \<Longrightarrow> np_multiply a b = Inr (map2 (*) a b)"
  unfolding np_multiply_def broadcast_def by (simp add: case_prod_beta)

lemma clipped_ratio_same_length:
  assumes "length (JLM s) = length (JMM s)" and "0 \<notin> set (JMM s)"
  shows "clipped_ratio s = Inr (map2 (\<lambda>x y. min (x / y) (9 / 100)) (JLM s) (JMM s))"
  unfolding clipped_ratio_def clip_max_def
  by (simp add: np_divide_same_length [OF assms] case_prod_beta)

lemma broadcast_divisors:
  "broadcast a b = Inr ps \<Longrightarrow> set (map snd ps) \<subseteq> set b"
  unfolding broadcast_def
  by (auto split: if_splits dest: set_zip_rightD simp: length_Suc_conv)

lemma np_divide_finite:
  assumes "0 \<notin> set b"
  shows "np_divide a b \<noteq> Inl NonFinite"
proof (cases "broadcast a b")
  case (Inl e)
  then have "e = ValueError"
    unfolding broadcast_def by (simp split: if_splits)
  with Inl show ?thesis
    unfolding np_divide_def by simp
next
  case (Inr ps)
  then have "0 \<notin> set (map snd ps)"
    using broadcast_divisors assms by blast
  with Inr show ?thesis
    unfolding np_divide_def by simp
qed

lemma np_multiply_finite: "np_multiply a b \<noteq> Inl NonFinite"
  unfolding np_multiply_def broadcast_def by (simp split: if_splits)

lemma update_nut_finite: "update_nut magS s \<noteq> Inl NonFinite"
proof -
  have "np_multiply a b = Inl e \<Longrightarrow> e = ValueError" for a b e
    unfolding np_multiply_def broadcast_def by (simp split: if_splits)
  moreover have "set_local v w = Inl e \<Longrightarrow> e = SizeError" for v w e
    unfolding set_local_def by (simp split: if_splits)
  ultimately show ?thesis
    unfolding update_nut_def by (fastforce split: sum.splits)
qed

lemma les_setup_Inr:
  assumes "les_setup m am db cf ucs bcs = Inr b"
  shows "geometry_dim m \<noteq> 0"
    and "Lij b = replicate (geometry_dim m * geometry_dim m) (Function (CG1_space m))"
    and "Mij b = replicate (geometry_dim m * geometry_dim m) (Function (CG1_space m))"
    and "Sijcomps b = replicate (geometry_dim m * geometry_dim m) (Function (CG1_space m))"
    and "Sijfcomps b = replicate (geometry_dim m * geometry_dim m) (Function (CG1_space m))"
    and "tensdim b = (if geometry_dim m = 3 then 6 else 3)"
    and "uiuj_pairs b =
           (if geometry_dim m = 3 then [(0,0),(0,1),(0,2),(1,1),(1,2),(2,2)]
            else [(0,0),(0,1),(1,1)])"
    and "dim b = geometry_dim m"
    and "JLM b = replicate (space_dim (CG1_space m)) (1 / 10 ^ 32)"
    and "JMM b = replicate (space_dim (CG1_space m)) 1"
    and "Sij_sol b =
           \<lparr>solver_method = ''cg'', preconditioner = ''default'',
            preconditioner_structure = ''same_nonzero_pattern'',
            error_on_nonconvergence = False, monitor_convergence = False, report = False\<rparr>"
    and "delta_CG1_sq b = map (\<lambda>x. x ^ 2) (project_delta m)"
    and "Sijmats b = map am [0..<geometry_dim m]"
    and "G_matr b = assemble_pq m"
    and "np_divide [1] (assemble_q m) = Inr (G_under b)"
    and "make_bcs_u_CG1 (CG1_space m) bcs ucs Map.empty = Inr (bcs_u_CG1 b)"
  using assms unfolding les_setup_def Let_def new_KrylovSolver_def Function_def
  by (auto split: if_splits option.splits sum.splits simp: map_replicate_const)

text \<open>On the mesh of one triangle the setup returns the bundle \<open>ex_bundle\<close>.\<close>

lemma ex_setup:
  "les_setup ex_mesh ex_assemble_matrix ex_derived_bcs ex_CG1Function [''u0'', ''u1''] ex_bcs
     = Inr ex_bundle"
  unfolding les_setup_def ex_bundle_def
  by (simp add: ex_mesh_def ex_bcs_def ex_derived_bcs_def ex_CG1Function_def ex_space_def
      new_DirichletBC_def np_divide_def broadcast_def Function_def new_KrylovSolver_def
      eval_nat_numeral upt_rec)

lemmas ex_defs =
  ex_state_def ex_bundle_def ex_args_def ex_externals_def ex_space_def ex_assemble_matrix_def

section \<open>The coefficient update\<close>



section \<open>The skip step\<close>

text \<open>
  Claim C3. When \<^verbatim>\<open>tstep\<close> modulo the recompute interval is not zero, \<open>les_update\<close>
  does nothing but call \<^verbatim>\<open>nut_()\<close>: its result is the bundle as that call leaves it,
  whatever the functions of \<^verbatim>\<open>DynamicModules\<close> are, so no tensor and no average is
  recomputed. The call refreshes the viscosity; as it leaves \<^verbatim>\<open>Cs\<close>, \<^verbatim>\<open>JLM\<close> and
  \<^verbatim>\<open>JMM\<close> alone, so does the step.
\<close>

theorem skip_step_frame:
  assumes "DynamicSmagorinsky a ''Cs_comp_step'' = Some k"
    and "k \<noteq> 0"
    and "tstep a mod k \<noteq> 0"
    and "Cs (nut_call X a s) = Cs s"
    and "JLM (nut_call X a s) = JLM s"
    and "JMM (nut_call X a s) = JMM s"
  shows "les_update X a s = Inr (nut_call X a s)
           \<and> (\<exists>s'. les_update X a s = Inr s' \<and> Cs s' = Cs s \<and> JLM s' = JLM s \<and> JMM s' = JMM s)"
  using assms unfolding les_update_def by simp

theorem skip_step_frame_witness:
  "DynamicSmagorinsky (ex_args 1) ''Cs_comp_step'' = Some 2
   \<and> tstep (ex_args 1) mod 2 = 1
   \<and> les_update ex_externals (ex_args 1) (ex_state [1 / 400, 1 / 625, 1 / 2500] [1, 1, 1])
       = Inr ((ex_state [1 / 400, 1 / 625, 1 / 2500] [1, 1, 1])
               \<lparr>nut := \<lparr>fn_vector = [0, 1 / 200, 1 / 200],
                        fn_bcs = [\<lparr>bc_value = 0, user_sub_domain = 1, bc_dofs = [0]\<rparr>]\<rparr>\<rparr>)"
proof -
  let ?a = "ex_args 1"
  let ?s = "ex_state [1 / 400, 1 / 625, 1 / 2500] [1, 1, 1]"
  have h1: "DynamicSmagorinsky ?a ''Cs_comp_step'' = Some 2"
    by (simp add: ex_args_def)
  have h2: "(2::int) \<noteq> 0"
    by simp
  have h3: "tstep ?a mod 2 \<noteq> 0"
    by (simp add: ex_args_def)
  have h4: "Cs (nut_call ex_externals ?a ?s) = Cs ?s"
    and h5: "JLM (nut_call ex_externals ?a ?s) = JLM ?s"
    and h6: "JMM (nut_call ex_externals ?a ?s) = JMM ?s"
    by (simp_all add: ex_externals_def)
  have "nut_call ex_externals ?a ?s
          = ?s\<lparr>nut := \<lparr>fn_vector = [0, 1 / 200, 1 / 200],
                        fn_bcs = [\<lparr>bc_value = 0, user_sub_domain = 1, bc_dofs = [0]\<rparr>]\<rparr>\<rparr>"
    by (simp add: ex_defs apply_bcs_def bc_apply_def)
  with skip_step_frame [OF h1 h2 h3 h4 h5 h6] h1 show ?thesis
    by (simp add: ex_args_def)
qed

section \<open>What the setup builds\<close>

text \<open>
  Claim C8. The setup initialises \<^verbatim>\<open>JLM\<close> to \<open>10\<^sup>-\<^sup>3\<^sup>2\<close> and \<^verbatim>\<open>JMM\<close> to \<open>1\<close> at every
  node. Both are positive, so the ratio of the coefficient update is defined on the
  bundle the setup returns: it is \<open>10\<^sup>-\<^sup>3\<^sup>2\<close> at every node.
\<close>

theorem setup_memory_fields:
  assumes "les_setup m am db cf ucs bcs = Inr b"
  shows "JLM b = replicate (space_dim (CG1_space m)) (1 / 10 ^ 32)
         \<and> JMM b = replicate (space_dim (CG1_space m)) 1
         \<and> (\<forall>x \<in> set (JLM b). 0 < x)
         \<and> (\<forall>x \<in> set (JMM b). 0 < x)
         \<and> clipped_ratio b = Inr (replicate (space_dim (CG1_space m)) (1 / 10 ^ 32))"
proof -
  let ?n = "space_dim (CG1_space m)"
  have jlm: "JLM b = replicate ?n (1 / 10 ^ 32)" and jmm: "JMM b = replicate ?n 1"
    using les_setup_Inr(9,10) [OF assms] by simp_all
  have "clipped_ratio b = Inr (map2 (\<lambda>x y. min (x / y) (9 / 100)) (JLM b) (JMM b))"
    by (rule clipped_ratio_same_length) (simp_all add: jlm jmm)
  then have "clipped_ratio b = Inr (replicate ?n (1 / 10 ^ 32))"
    by (simp add: jlm jmm zip_replicate)
  then show ?thesis
    by (simp add: jlm jmm)
qed

theorem setup_memory_fields_witness:
  "les_setup ex_mesh ex_assemble_matrix ex_derived_bcs ex_CG1Function [''u0'', ''u1''] ex_bcs
     = Inr ex_bundle
   \<and> JLM ex_bundle = [1 / 10 ^ 32, 1 / 10 ^ 32, 1 / 10 ^ 32]
   \<and> JMM ex_bundle = [1, 1, 1]
   \<and> clipped_ratio ex_bundle = Inr [1 / 10 ^ 32, 1 / 10 ^ 32, 1 / 10 ^ 32]"
  using setup_memory_fields [OF ex_setup] ex_setup
  by (simp add: ex_mesh_def ex_space_def eval_nat_numeral)

text \<open>
  Claim C4, as amended. Each of \<^verbatim>\<open>Lij\<close>, \<^verbatim>\<open>Mij\<close>, \<^verbatim>\<open>Sijcomps\<close> and \<^verbatim>\<open>Sijfcomps\<close>
  is allocated as a list of \<open>dim \<cdot> dim\<close> zero functions of CG1 (4 in two dimensions,
  9 in three), not of \<open>tensdim\<close>. \<^verbatim>\<open>tensdim\<close> is 6 when \<open>dim = 3\<close> and 3 otherwise,
  \<^verbatim>\<open>uiuj_pairs\<close> is the list of pairs ((0,0),(0,1),(0,2),(1,1),(1,2),(2,2)) when
  \<open>dim = 3\<close> and ((0,0),(0,1),(1,1)) otherwise, its length is \<open>tensdim\<close>, and in two
  and three dimensions \<open>tensdim\<close> is less than the number of allocated fields.
\<close>

theorem tensor_fields_allocated:
  assumes "les_setup m am db cf ucs bcs = Inr b"
  shows "dim b = geometry_dim m
         \<and> length (Lij b) = dim b * dim b \<and> length (Mij b) = dim b * dim b
         \<and> length (Sijcomps b) = dim b * dim b \<and> length (Sijfcomps b) = dim b * dim b
         \<and> (\<forall>f \<in> set (Lij b @ Mij b @ Sijcomps b @ Sijfcomps b). f = Function (CG1_space m))
         \<and> tensdim b = (if dim b = 3 then 6 else 3)
         \<and> uiuj_pairs b =
             (if dim b = 3 then [(0,0),(0,1),(0,2),(1,1),(1,2),(2,2)] else [(0,0),(0,1),(1,1)])
         \<and> length (uiuj_pairs b) = tensdim b
         \<and> (dim b = 2 \<or> dim b = 3 \<longrightarrow> tensdim b < dim b * dim b)"
  using les_setup_Inr(2-8) [OF assms] by auto

theorem tensor_fields_allocated_witness:
  "les_setup ex_mesh ex_assemble_matrix ex_derived_bcs ex_CG1Function [''u0'', ''u1''] ex_bcs
     = Inr ex_bundle
   \<and> dim ex_bundle = 2 \<and> length (Lij ex_bundle) = 2 * 2 \<and> length (Mij ex_bundle) = 2 * 2
   \<and> length (Sijcomps ex_bundle) = 2 * 2 \<and> length (Sijfcomps ex_bundle) = 2 * 2
   \<and> tensdim ex_bundle = 3 \<and> uiuj_pairs ex_bundle = [(0,0),(0,1),(1,1)]"
  using tensor_fields_allocated [OF ex_setup] ex_setup
  by (simp add: ex_mesh_def)

text \<open>
  Claim C4 as stated fails in two dimensions: each list holds four fields while
  \<open>tensdim\<close> is three.
\<close>

theorem tensor_fields_not_tensdim:
  "les_setup ex_mesh ex_assemble_matrix ex_derived_bcs ex_CG1Function [''u0'', ''u1''] ex_bcs
     = Inr ex_bundle
   \<and> geometry_dim ex_mesh = 2
   \<and> length (Lij ex_bundle) = 4 \<and> length (Mij ex_bundle) = 4
   \<and> length (Sijcomps ex_bundle) = 4 \<and> length (Sijfcomps ex_bundle) = 4
   \<and> tensdim ex_bundle = 3
   \<and> length (Lij ex_bundle) \<noteq> tensdim ex_bundle"
  using ex_setup by (simp add: ex_bundle_def ex_mesh_def)

text \<open>
  Claim C6. The solver \<^verbatim>\<open>Sij_sol\<close> of the strain-rate solves leaves the setup with
  \<^verbatim>\<open>error_on_nonconvergence\<close> off (and with monitoring and reporting off). A solve
  with it never raises: converged or not, it returns the iterate it has. With the
  library's default a solve that has not converged raises.
\<close>

theorem Sij_sol_never_raises:
  assumes "les_setup m am db cf ucs bcs = Inr b"
  shows "error_on_nonconvergence (Sij_sol b) = False
         \<and> monitor_convergence (Sij_sol b) = False \<and> report (Sij_sol b) = False
         \<and> (\<forall>r. krylov_solve (Sij_sol b) r = Inr (iterate r))"
  using les_setup_Inr(11) [OF assms] by (simp add: krylov_solve_def)

theorem Sij_sol_never_raises_witness:
  "les_setup ex_mesh ex_assemble_matrix ex_derived_bcs ex_CG1Function [''u0'', ''u1''] ex_bcs
     = Inr ex_bundle
   \<and> krylov_solve (Sij_sol ex_bundle) \<lparr>iterate = [1, 2, 3], converged = False\<rparr> = Inr [1, 2, 3]
   \<and> krylov_solve (new_KrylovSolver ''cg'' ''default'') \<lparr>iterate = [1, 2, 3], converged = False\<rparr>
       = Inl NonConvergence"
  using Sij_sol_never_raises [OF ex_setup] ex_setup
  by (simp add: krylov_solve_def new_KrylovSolver_def)
section \<open>The filter averages\<close>

lemma weighted_sum_le:
  fixes row v :: vec
  assumes "length row = length v"
    and "\<forall>x \<in> set row. 0 \<le> x"
    and "\<forall>x \<in> set v. x \<le> c"
  shows "sum_list (map2 (*) row v) \<le> c * sum_list row"
  using assms
proof (induction row v rule: list_induct2)
  case Nil
  then show ?case by simp
next
  case (Cons r row x v)
  have "r * x \<le> r * c"
    using Cons.prems by (simp add: mult_left_mono)
  moreover have "sum_list (map2 (*) row v) \<le> c * sum_list row"
    using Cons by simp
  ultimately show ?case
    by (simp add: algebra_simps)
qed

lemma averaged_le:
  fixes row v :: vec
  assumes "length row = length v"
    and "\<forall>x \<in> set row. 0 \<le> x"
    and "\<forall>x \<in> set v. x \<le> c"
    and "g * sum_list row = 1"
  shows "sum_list (map2 (*) row v) * g \<le> c"
proof -
  have nonneg: "0 \<le> sum_list row"
    using assms(2) by (simp add: sum_list_nonneg)
  have "0 \<le> g"
  proof (rule ccontr)
    assume "\<not> 0 \<le> g"
    then have "g * sum_list row \<le> 0"
      using nonneg by (simp add: mult_nonpos_nonneg)
    with assms(4) show False by simp
  qed
  then have "sum_list (map2 (*) row v) * g \<le> (c * sum_list row) * g"
    using weighted_sum_le [OF assms(1-3)] by (rule mult_right_mono [rotated])
  also have "\<dots> = c"
    using assms(4) by (simp add: mult.assoc mult.commute)
  finally show ?thesis .
qed

lemma filter_pass_length:
  assumes "averaging G g n" and "length v = n"
  shows "length (filter_pass G g w v) = n"
  using assms unfolding filter_pass_def matvec_def averaging_def by simp

lemma filter_pass_le:
  assumes av: "averaging G g n" and len: "length v = n"
    and w: "0 \<le> w" "w \<le> 1"
    and bound: "\<forall>x \<in> set v. x \<le> c"
  shows "\<forall>x \<in> set (filter_pass G g w v). x \<le> c"
proof -
  have "filter_pass G g w v ! i \<le> c" if i: "i < n" for i
  proof -
    have row: "length (G ! i) = length v" "\<forall>x \<in> set (G ! i). 0 \<le> x"
      "g ! i * sum_list (G ! i) = 1"
      using av i len unfolding averaging_def by simp_all
    have lens: "length G = n" "length g = n"
      using av unfolding averaging_def by simp_all
    have eq: "filter_pass G g w v ! i
                = w * (sum_list (map2 (*) (G ! i) v) * g ! i) + (1 - w) * v ! i"
      using i lens len unfolding filter_pass_def matvec_def by simp
    have a: "sum_list (map2 (*) (G ! i) v) * g ! i \<le> c"
      by (rule averaged_le [OF row(1) row(2) bound row(3)])
    have b: "v ! i \<le> c"
      using bound i len by simp
    have "w * (sum_list (map2 (*) (G ! i) v) * g ! i) \<le> w * c"
      using a w(1) by (rule mult_left_mono)
    moreover have "(1 - w) * v ! i \<le> (1 - w) * c"
      using b w(2) by (simp add: mult_left_mono)
    ultimately have "w * (sum_list (map2 (*) (G ! i) v) * g ! i) + (1 - w) * v ! i
                       \<le> w * c + (1 - w) * c"
      by (rule add_mono)
    then show ?thesis
      unfolding eq by (simp add: algebra_simps)
  qed
  then show ?thesis
    using filter_pass_length [OF av len, of w] by (auto simp: in_set_conv_nth)
qed

lemma filter_passes_le:
  assumes "averaging G g n" and "length v = n" and "0 \<le> w" and "w \<le> 1"
    and "\<forall>x \<in> set v. x \<le> c"
  shows "length ((filter_pass G g w ^^ N) v) = n
         \<and> (\<forall>x \<in> set ((filter_pass G g w ^^ N) v). x \<le> c)"
proof (induction N)
  case 0
  then show ?case using assms by simp
next
  case (Suc N)
  let ?u = "(filter_pass G g w ^^ N) v"
  have len: "length ?u = n" and le: "\<forall>x \<in> set ?u. x \<le> c"
    using Suc by simp_all
  have "length (filter_pass G g w ?u) = n"
    by (rule filter_pass_length [OF assms(1) len])
  moreover have "\<forall>x \<in> set (filter_pass G g w ?u). x \<le> c"
    by (rule filter_pass_le [OF assms(1) len assms(3,4) le])
  ultimately show ?case
    by simp
qed

lemma clip_max_le: "\<forall>x \<in> set (clip_max a m). x \<le> m"
  unfolding clip_max_def by simp

section \<open>The steps of the full update\<close>

lemma full_step_split:
  assumes "DynamicSmagorinsky a ''Cs_comp_step'' = Some k" and "k \<noteq> 0"
    and "tstep a mod k = 0"
    and "les_update X a s = Inr s'"
  obtains s6 where "update_Cs X a (snd (tensors_and_average X a s)) = Inr s6"
    and "update_nut (fst (tensors_and_average X a s)) s6 = Inr s'"
  using assms unfolding les_update_def Let_def
  by (auto split: sum.splits)

lemma update_Cs_Inr:
  assumes "update_Cs X a s = Inr s6"
  obtains c where "clipped_ratio s = Inr c" and "length c = length (Cs s)"
    and "s6 = tophatfilter X 2 1 a (s\<lparr>Cs := c\<rparr>)"
  using assms unfolding update_Cs_def set_local_def
  by (auto split: sum.splits if_splits)

lemma update_nut_Inr:
  assumes "update_nut magS s = Inr s'"
  obtains p v where "np_multiply (Cs s) (delta_CG1_sq s) = Inr p"
    and "np_multiply p magS = Inr v"
    and "length v = length (fn_vector (nut s))"
    and "s' = s\<lparr>nut := (nut s)\<lparr>fn_vector := apply_bcs (fn_bcs (nut s)) v\<rparr>\<rparr>"
  using assms unfolding update_nut_def set_local_def
  by (auto split: sum.splits if_splits)

lemma clipped_ratio_le:
  assumes "clipped_ratio s = Inr c"
  shows "\<forall>x \<in> set c. x \<le> 9 / 100"
proof -
  obtain r where "c = clip_max r (9 / 100)"
    using assms unfolding clipped_ratio_def by (auto split: sum.splits)
  then show ?thesis
    using clip_max_le [of r "9 / 100"] by simp
qed

text \<open>
  Claim C2. On a full step the array \<^verbatim>\<open>Cs.vector().array()\<close> that enters the
  viscosity of line 137 (the squared coefficient, as the code stores it) is at most
  \<open>0.09\<close> at every node, whatever the ratio \<open>JLM/JMM\<close>, when the filter is the
  top-hat filter and its mass matrix and lumped inverse average.
\<close>

theorem Cs_at_most_ceiling:
  assumes "DynamicSmagorinsky a ''Cs_comp_step'' = Some k" and "k \<noteq> 0"
    and "tstep a mod k = 0"
    and "tophatfilter X = tophatfilter_Cs"
    and "averaging (G_matr (snd (tensors_and_average X a s)))
           (G_under (snd (tensors_and_average X a s)))
           (length (Cs (snd (tensors_and_average X a s))))"
    and "les_update X a s = Inr s'"
  shows "\<exists>s6. update_Cs X a (snd (tensors_and_average X a s)) = Inr s6
           \<and> update_nut (fst (tensors_and_average X a s)) s6 = Inr s'
           \<and> Cs s' = Cs s6
           \<and> (\<forall>x \<in> set (Cs s6). x \<le> 9 / 100)"
proof -
  let ?s4 = "snd (tensors_and_average X a s)"
  from full_step_split [OF assms(1,2,3,6)]
  obtain s6 where s6: "update_Cs X a ?s4 = Inr s6"
    and nu: "update_nut (fst (tensors_and_average X a s)) s6 = Inr s'"
    by blast
  from update_Cs_Inr [OF s6]
  obtain c where c: "clipped_ratio ?s4 = Inr c" and len: "length c = length (Cs ?s4)"
    and s6_eq: "s6 = tophatfilter X 2 1 a (?s4\<lparr>Cs := c\<rparr>)"
    by blast
  have "Cs s6 = (filter_pass (G_matr ?s4) (G_under ?s4) 1 ^^ 2) c"
    unfolding s6_eq assms(4) tophatfilter_Cs_def by simp
  moreover have "\<forall>x \<in> set ((filter_pass (G_matr ?s4) (G_under ?s4) 1 ^^ 2) c). x \<le> 9 / 100"
    using filter_passes_le [OF assms(5) len _ _ clipped_ratio_le [OF c], of 1 2] by simp
  ultimately have le: "\<forall>x \<in> set (Cs s6). x \<le> 9 / 100"
    by simp
  have "Cs s' = Cs s6"
    using nu by (rule update_nut_Inr) simp
  with s6 nu le show ?thesis
    by blast
qed

lemma ex_averaging:
  "averaging [[1 / 24, 1 / 48, 1 / 48], [1 / 48, 1 / 24, 1 / 48], [1 / 48, 1 / 48, 1 / 24]]
     [12, 12, 12] 3"
  unfolding averaging_def by (simp add: less_Suc_eq eval_nat_numeral)

lemma ex_tensors_and_average:
  "tensors_and_average ex_externals (ex_args t) (ex_state jl jm)
     = ([2, 2, 2],
        (ex_state (map (\<lambda>x. max x (1 / 10 ^ 32)) jl) (map (\<lambda>x. max x (1 / 10 ^ 32)) jm))
          \<lparr>u_CG1 := [[1, 1, 1], [0, 0, 0]], u_filtered := [[1, 1, 1], [0, 0, 0]]\<rparr>)"
  unfolding tensors_and_average_def
  by (simp add: ex_defs filter_pass_def matvec_def)

theorem Cs_at_most_ceiling_witness:
  "DynamicSmagorinsky (ex_args 2) ''Cs_comp_step'' = Some 2
   \<and> tstep (ex_args 2) mod 2 = 0
   \<and> tophatfilter ex_externals = tophatfilter_Cs
   \<and> JLM (snd (tensors_and_average ex_externals (ex_args 2) (ex_state [100, 100, 100] [1, 1, 1])))
       = [100, 100, 100]
   \<and> JMM (snd (tensors_and_average ex_externals (ex_args 2) (ex_state [100, 100, 100] [1, 1, 1])))
       = [1, 1, 1]
   \<and> les_update ex_externals (ex_args 2) (ex_state [100, 100, 100] [1, 1, 1])
       = Inr ((ex_state [100, 100, 100] [1, 1, 1])
               \<lparr>nut := \<lparr>fn_vector = [0, 9 / 200, 9 / 200],
                        fn_bcs = [\<lparr>bc_value = 0, user_sub_domain = 1, bc_dofs = [0]\<rparr>]\<rparr>,
                Cs := [9 / 100, 9 / 100, 9 / 100],
                u_CG1 := [[1, 1, 1], [0, 0, 0]],
                u_filtered := [[1, 1, 1], [0, 0, 0]]\<rparr>)"
proof -
  let ?a = "ex_args 2"
  let ?s = "ex_state [100, 100, 100] [1, 1, 1]"
  let ?s' = "?s\<lparr>nut := \<lparr>fn_vector = [0, 9 / 200, 9 / 200],
                        fn_bcs = [\<lparr>bc_value = 0, user_sub_domain = 1, bc_dofs = [0]\<rparr>]\<rparr>,
                Cs := [9 / 100, 9 / 100, 9 / 100],
                u_CG1 := [[1, 1, 1], [0, 0, 0]],
                u_filtered := [[1, 1, 1], [0, 0, 0]]\<rparr>"
  have h1: "DynamicSmagorinsky ?a ''Cs_comp_step'' = Some 2"
    by (simp add: ex_args_def)
  have h2: "(2::int) \<noteq> 0"
    by simp
  have h3: "tstep ?a mod 2 = 0"
    by (simp add: ex_args_def)
  have h4: "tophatfilter ex_externals = tophatfilter_Cs"
    by (simp add: ex_externals_def)
  have h5: "averaging (G_matr (snd (tensors_and_average ex_externals ?a ?s)))
              (G_under (snd (tensors_and_average ex_externals ?a ?s)))
              (length (Cs (snd (tensors_and_average ex_externals ?a ?s))))"
    unfolding ex_tensors_and_average using ex_averaging
    by (simp add: ex_state_def ex_bundle_def numeral_3_eq_3)
  have h6: "les_update ex_externals ?a ?s = Inr ?s'"
    unfolding les_update_def ex_tensors_and_average
    by (simp add: h1 h3 ex_defs update_Cs_def clipped_ratio_def update_nut_def
        np_divide_def np_multiply_def broadcast_def clip_max_def set_local_def
        tophatfilter_Cs_def filter_pass_def matvec_def apply_bcs_def bc_apply_def
        eval_nat_numeral)
  from Cs_at_most_ceiling [OF h1 h2 h3 h4 h5 h6]
  have "\<forall>x \<in> set (Cs ?s'). x \<le> 9 / 100"
    by auto
  with h1 h3 h4 h6 show ?thesis
    unfolding ex_tensors_and_average by (simp add: ex_state_def)
qed


section \<open>The division of the coefficient update\<close>

lemma update_Cs_finite:
  assumes "0 \<notin> set (JMM s)"
  shows "update_Cs X a s \<noteq> Inl NonFinite"
proof -
  have "clipped_ratio s \<noteq> Inl NonFinite"
    using np_divide_finite [OF assms, of "JLM s"] unfolding clipped_ratio_def
    by (auto split: sum.splits)
  moreover have "set_local v w = Inl e \<Longrightarrow> e = SizeError" for v w e
    unfolding set_local_def by (simp split: if_splits)
  ultimately show ?thesis
    unfolding update_Cs_def by (fastforce split: sum.splits)
qed

text \<open>
  Claim C5. On a full step, when every nodal value of \<^verbatim>\<open>JMM\<close> is positive after the
  Lagrangian average, the division \<^verbatim>\<open>JLM/JMM\<close> of line 132 does not divide by zero
  and the step as a whole never leaves the finite values; for memory fields of one
  length the coefficient is then defined at every node, as the clipped ratio.
\<close>

theorem ratio_defined_for_positive_JMM:
  assumes "DynamicSmagorinsky a ''Cs_comp_step'' = Some k" and "k \<noteq> 0"
    and "tstep a mod k = 0"
    and "\<forall>x \<in> set (JMM (snd (tensors_and_average X a s))). 0 < x"
  shows "np_divide (JLM (snd (tensors_and_average X a s))) (JMM (snd (tensors_and_average X a s)))
           \<noteq> Inl NonFinite
         \<and> les_update X a s \<noteq> Inl NonFinite
         \<and> (length (JLM (snd (tensors_and_average X a s)))
              = length (JMM (snd (tensors_and_average X a s)))
            \<longrightarrow> clipped_ratio (snd (tensors_and_average X a s))
                  = Inr (map2 (\<lambda>x y. min (x / y) (9 / 100))
                          (JLM (snd (tensors_and_average X a s)))
                          (JMM (snd (tensors_and_average X a s)))))"
proof -
  let ?s4 = "snd (tensors_and_average X a s)"
  have nz: "0 \<notin> set (JMM ?s4)"
    using assms(4) by fastforce
  have a: "np_divide (JLM ?s4) (JMM ?s4) \<noteq> Inl NonFinite"
    by (rule np_divide_finite [OF nz])
  have "update_Cs X a ?s4 \<noteq> Inl NonFinite"
    by (rule update_Cs_finite [OF nz])
  then have b: "les_update X a s \<noteq> Inl NonFinite"
    using assms(1-3) update_nut_finite unfolding les_update_def Let_def
    by (auto split: sum.splits)
  have c: "length (JLM ?s4) = length (JMM ?s4)
             \<longrightarrow> clipped_ratio ?s4
                   = Inr (map2 (\<lambda>x y. min (x / y) (9 / 100)) (JLM ?s4) (JMM ?s4))"
    using clipped_ratio_same_length [OF _ nz] by simp
  from a b c show ?thesis
    by simp
qed

theorem ratio_defined_for_positive_JMM_witness:
  "DynamicSmagorinsky (ex_args 2) ''Cs_comp_step'' = Some 2
   \<and> tstep (ex_args 2) mod 2 = 0
   \<and> JMM (snd (tensors_and_average ex_externals (ex_args 2) (ex_state [1, 0, 3] [1, 0, 4])))
       = [1, 1 / 10 ^ 32, 4]
   \<and> les_update ex_externals (ex_args 2) (ex_state [1, 0, 3] [1, 0, 4]) \<noteq> Inl NonFinite
   \<and> clipped_ratio (snd (tensors_and_average ex_externals (ex_args 2) (ex_state [1, 0, 3] [1, 0, 4])))
       = Inr [9 / 100, 9 / 100, 9 / 100]
   \<and> clipped_ratio (ex_state [1, 0, 3] [1, 0, 4]) = Inl NonFinite"
proof -
  let ?a = "ex_args 2"
  let ?s = "ex_state [1, 0, 3] [1, 0, 4]"
  have h1: "DynamicSmagorinsky ?a ''Cs_comp_step'' = Some 2"
    by (simp add: ex_args_def)
  have h2: "(2::int) \<noteq> 0"
    by simp
  have h3: "tstep ?a mod 2 = 0"
    by (simp add: ex_args_def)
  have jmm: "JMM (snd (tensors_and_average ex_externals ?a ?s)) = [1, 1 / 10 ^ 32, 4]"
    and jlm: "JLM (snd (tensors_and_average ex_externals ?a ?s)) = [1, 1 / 10 ^ 32, 3]"
    unfolding ex_tensors_and_average by (simp_all add: ex_state_def)
  have h4: "\<forall>x \<in> set (JMM (snd (tensors_and_average ex_externals ?a ?s))). 0 < x"
    unfolding jmm by simp
  have "clipped_ratio ?s = Inl NonFinite"
    by (simp add: clipped_ratio_def np_divide_def broadcast_def ex_state_def)
  with ratio_defined_for_positive_JMM [OF h1 h2 h3 h4] h1 h3 show ?thesis
    by (simp add: jmm jlm)
qed

section \<open>The operators stay as the setup built them\<close>

lemma tensors_and_average_operators:
  assumes "keep_operators X"
  shows "operators (snd (tensors_and_average X a s)) = operators s"
  using assms unfolding keep_operators_def tensors_and_average_def Let_def by simp

lemma update_Cs_operators:
  assumes "keep_operators X" and "update_Cs X a s = Inr s'"
  shows "operators s' = operators s"
proof -
  from update_Cs_Inr [OF assms(2)]
  obtain c where "s' = tophatfilter X 2 1 a (s\<lparr>Cs := c\<rparr>)"
    by blast
  moreover have "operators (s\<lparr>Cs := c\<rparr>) = operators s"
    by (simp add: operators_def)
  ultimately show ?thesis
    using assms(1) unfolding keep_operators_def by simp
qed

lemma update_nut_operators:
  assumes "update_nut magS s = Inr s'"
  shows "operators s' = operators s"
  using assms by (rule update_nut_Inr) (simp add: operators_def)

lemma les_update_operators:
  assumes "keep_operators X" and "les_update X a s = Inr s'"
  shows "operators s' = operators s"
proof (cases "DynamicSmagorinsky a ''Cs_comp_step''")
  case None
  with assms(2) show ?thesis
    unfolding les_update_def by simp
next
  case (Some k)
  show ?thesis
  proof (cases "k = 0 \<or> tstep a mod k \<noteq> 0")
    case True
    with Some assms show ?thesis
      unfolding les_update_def keep_operators_def by (auto split: if_splits)
  next
    case False
    then have k: "k \<noteq> 0" "tstep a mod k = 0"
      by simp_all
    from full_step_split [OF Some k assms(2)]
    obtain s6 where "update_Cs X a (snd (tensors_and_average X a s)) = Inr s6"
      and "update_nut (fst (tensors_and_average X a s)) s6 = Inr s'"
      by blast
    then show ?thesis
      using update_nut_operators update_Cs_operators [OF assms(1)]
        tensors_and_average_operators [OF assms(1)]
      by metis
  qed
qed

lemma les_updates_operators:
  assumes "keep_operators X" and "les_updates X steps s = Inr s'"
  shows "operators s' = operators s"
  using assms(2)
proof (induction steps arbitrary: s)
  case Nil
  then show ?case by simp
next
  case (Cons a steps)
  then obtain s1 where s1: "les_update X a s = Inr s1" and rest: "les_updates X steps s1 = Inr s'"
    by (auto split: sum.splits)
  have "operators s' = operators s1"
    by (rule Cons.IH [OF rest])
  also have "\<dots> = operators s"
    by (rule les_update_operators [OF assms(1) s1])
  finally show ?case .
qed

text \<open>
  Claim C9. The cached \<^verbatim>\<open>delta_CG1_sq\<close>, the derivative matrices, the filter's mass
  matrix and lumped inverse and the CG1 boundary conditions of the velocity are built
  by the setup, and no run of per-step updates on the bundle changes them, the imported
  functions and \<^verbatim>\<open>nut_()\<close> leaving them alone: after any number of updates they are
  what the setup computed from the mesh.
\<close>

theorem operators_fixed_after_setup:
  assumes "keep_operators X"
    and "les_setup m am db cf ucs bcs = Inr b"
    and "les_updates X steps b = Inr s'"
  shows "operators s' = operators b
         \<and> delta_CG1_sq s' = map (\<lambda>x. x ^ 2) (project_delta m)
         \<and> Sijmats s' = map am [0..<geometry_dim m]
         \<and> G_matr s' = assemble_pq m
         \<and> np_divide [1] (assemble_q m) = Inr (G_under s')
         \<and> make_bcs_u_CG1 (CG1_space m) bcs ucs Map.empty = Inr (bcs_u_CG1 s')"
proof -
  have "operators s' = operators b"
    by (rule les_updates_operators [OF assms(1,3)])
  then show ?thesis
    using les_setup_Inr(12-16) [OF assms(2)] by (simp add: operators_def)
qed

lemma ex_keep_operators: "keep_operators ex_externals"
  unfolding keep_operators_def
  by (simp add: ex_externals_def operators_def tophatfilter_Cs_def)

theorem operators_fixed_after_setup_witness:
  "keep_operators ex_externals
   \<and> les_setup ex_mesh ex_assemble_matrix ex_derived_bcs ex_CG1Function [''u0'', ''u1''] ex_bcs
       = Inr ex_bundle
   \<and> les_updates ex_externals [ex_args 1, ex_args 2] ex_bundle
       = Inr (ex_bundle
               \<lparr>nut := \<lparr>fn_vector = [0, 1 / (2 * 10 ^ 32), 1 / (2 * 10 ^ 32)],
                        fn_bcs = [\<lparr>bc_value = 0, user_sub_domain = 1, bc_dofs = [0]\<rparr>]\<rparr>,
                Cs := [1 / 10 ^ 32, 1 / 10 ^ 32, 1 / 10 ^ 32],
                u_CG1 := [[1, 1, 1], [0, 0, 0]],
                u_filtered := [[1, 1, 1], [0, 0, 0]]\<rparr>)
   \<and> delta_CG1_sq ex_bundle = [1 / 4, 1 / 4, 1 / 4]
   \<and> G_under ex_bundle = [12, 12, 12]"
proof -
  let ?s' = "ex_bundle
               \<lparr>nut := \<lparr>fn_vector = [0, 1 / (2 * 10 ^ 32), 1 / (2 * 10 ^ 32)],
                        fn_bcs = [\<lparr>bc_value = 0, user_sub_domain = 1, bc_dofs = [0]\<rparr>]\<rparr>,
                Cs := [1 / 10 ^ 32, 1 / 10 ^ 32, 1 / 10 ^ 32],
                u_CG1 := [[1, 1, 1], [0, 0, 0]],
                u_filtered := [[1, 1, 1], [0, 0, 0]]\<rparr>"
  have run: "les_updates ex_externals [ex_args 1, ex_args 2] ex_bundle = Inr ?s'"
    by (simp add: les_update_def tensors_and_average_def ex_bundle_def ex_args_def
        ex_externals_def ex_space_def ex_assemble_matrix_def update_Cs_def clipped_ratio_def
        update_nut_def np_divide_def np_multiply_def broadcast_def clip_max_def set_local_def
        tophatfilter_Cs_def filter_pass_def matvec_def apply_bcs_def bc_apply_def
        eval_nat_numeral)
  from operators_fixed_after_setup [OF ex_keep_operators ex_setup run]
  have "delta_CG1_sq ?s' = map (\<lambda>x. x ^ 2) (project_delta ex_mesh)"
    and "np_divide [1] (assemble_q ex_mesh) = Inr (G_under ?s')"
    by simp_all
  then have "delta_CG1_sq ex_bundle = [1 / 4, 1 / 4, 1 / 4]"
    and "G_under ex_bundle = [12, 12, 12]"
    by (simp_all add: ex_mesh_def np_divide_def broadcast_def power2_eq_square)
  with ex_keep_operators ex_setup run show ?thesis
    by simp
qed

section \<open>The full step\<close>

lemma np_divide_Inr_same_length:
  assumes "np_divide a b = Inr r" and "length a = length b"
  shows "r = map2 (/) a b"
proof -
  have "0 \<notin> set b"
  proof
    assume "0 \<in> set b"
    then have "0 \<in> set (map snd (zip a b))"
      using assms(2) by simp
    then show False
      using assms unfolding np_divide_def broadcast_def by simp
  qed
  then show ?thesis
    using np_divide_same_length [OF assms(2)] assms(1) by simp
qed

lemma clipped_ratio_Inr_same_length:
  assumes "clipped_ratio s = Inr c" and "length (JLM s) = length (JMM s)"
  shows "c = map2 (\<lambda>x y. min (x / y) (9 / 100)) (JLM s) (JMM s)"
proof -
  obtain r where r: "np_divide (JLM s) (JMM s) = Inr r" and c: "c = clip_max r (9 / 100)"
    using assms(1) unfolding clipped_ratio_def by (auto split: sum.splits)
  show ?thesis
    unfolding c np_divide_Inr_same_length [OF r assms(2)] clip_max_def
    by (simp add: case_prod_beta)
qed

text \<open>
  A full step returns when the arrays it combines fit: the memory fields and \<^verbatim>\<open>Cs\<close>
  have one length with no zero in \<^verbatim>\<open>JMM\<close>, and after the filter \<^verbatim>\<open>Cs\<close>,
  \<^verbatim>\<open>delta_CG1_sq\<close>, \<^verbatim>\<open>magS\<close> and the viscosity have one length.
\<close>

lemma full_step_returns:
  assumes "DynamicSmagorinsky a ''Cs_comp_step'' = Some k" and "k \<noteq> 0"
    and "tstep a mod k = 0"
    and "tensors_and_average X a s = (magS, s4)"
    and "length (JLM s4) = length (JMM s4)" and "length (Cs s4) = length (JMM s4)"
    and "0 \<notin> set (JMM s4)"
    and "s6 = tophatfilter X 2 1 a
                (s4\<lparr>Cs := map2 (\<lambda>x y. min (x / y) (9 / 100)) (JLM s4) (JMM s4)\<rparr>)"
    and "length (Cs s6) = length (delta_CG1_sq s6)" and "length magS = length (Cs s6)"
    and "length (fn_vector (nut s6)) = length (Cs s6)"
  shows "les_update X a s
           = Inr (s6\<lparr>nut := (nut s6)\<lparr>fn_vector :=
                    apply_bcs (fn_bcs (nut s6))
                      (map2 (*) (map2 (*) (Cs s6) (delta_CG1_sq s6)) magS)\<rparr>\<rparr>)"
proof -
  have c: "clipped_ratio s4
             = Inr (map2 (\<lambda>x y. min (x / y) (9 / 100)) (JLM s4) (JMM s4))"
    by (rule clipped_ratio_same_length [OF assms(5,7)])
  have u: "update_Cs X a s4 = Inr s6"
    unfolding update_Cs_def set_local_def assms(8) using c assms(5,6) by simp
  have p: "np_multiply (Cs s6) (delta_CG1_sq s6) = Inr (map2 (*) (Cs s6) (delta_CG1_sq s6))"
    by (rule np_multiply_same_length [OF assms(9)])
  have v: "np_multiply (map2 (*) (Cs s6) (delta_CG1_sq s6)) magS
             = Inr (map2 (*) (map2 (*) (Cs s6) (delta_CG1_sq s6)) magS)"
    by (rule np_multiply_same_length) (simp add: assms(9,10))
  have n: "update_nut magS s6
             = Inr (s6\<lparr>nut := (nut s6)\<lparr>fn_vector :=
                      apply_bcs (fn_bcs (nut s6))
                        (map2 (*) (map2 (*) (Cs s6) (delta_CG1_sq s6)) magS)\<rparr>\<rparr>)"
    unfolding update_nut_def set_local_def using p v assms(9,10,11) by simp
  show ?thesis
    unfolding les_update_def using assms(1-4) u n by simp
qed

text \<open>
  What a full step that returns computes, read off lines 132 to 139: the array stored
  in \<^verbatim>\<open>Cs\<close> is the clipped ratio of the averaged memory fields, the filter runs on it
  with two passes, and the viscosity is the product of the filtered \<^verbatim>\<open>Cs\<close>,
  \<^verbatim>\<open>delta_CG1_sq\<close> and \<^verbatim>\<open>magS\<close> with the boundary values written last.
\<close>

lemma full_step_pipeline:
  assumes "DynamicSmagorinsky a ''Cs_comp_step'' = Some k" and "k \<noteq> 0"
    and "tstep a mod k = 0"
    and "les_update X a s = Inr s'"
  shows "\<exists>c s6 p v.
           clipped_ratio (snd (tensors_and_average X a s)) = Inr c
           \<and> (length (JLM (snd (tensors_and_average X a s)))
                = length (JMM (snd (tensors_and_average X a s)))
              \<longrightarrow> c = map2 (\<lambda>x y. min (x / y) (9 / 100))
                         (JLM (snd (tensors_and_average X a s)))
                         (JMM (snd (tensors_and_average X a s))))
           \<and> s6 = tophatfilter X 2 1 a ((snd (tensors_and_average X a s))\<lparr>Cs := c\<rparr>)
           \<and> np_multiply (Cs s6) (delta_CG1_sq s6) = Inr p
           \<and> np_multiply p (fst (tensors_and_average X a s)) = Inr v
           \<and> (length (Cs s6) = length (delta_CG1_sq s6)
                \<and> length (fst (tensors_and_average X a s)) = length (Cs s6)
              \<longrightarrow> v = map2 (*) (map2 (*) (Cs s6) (delta_CG1_sq s6))
                         (fst (tensors_and_average X a s)))
           \<and> s' = s6\<lparr>nut := (nut s6)\<lparr>fn_vector := apply_bcs (fn_bcs (nut s6)) v\<rparr>\<rparr>"
proof -
  let ?s4 = "snd (tensors_and_average X a s)"
  let ?magS = "fst (tensors_and_average X a s)"
  from full_step_split [OF assms]
  obtain s6 where s6: "update_Cs X a ?s4 = Inr s6" and nu: "update_nut ?magS s6 = Inr s'"
    by blast
  from update_Cs_Inr [OF s6]
  obtain c where c: "clipped_ratio ?s4 = Inr c"
    and s6_eq: "s6 = tophatfilter X 2 1 a (?s4\<lparr>Cs := c\<rparr>)"
    by blast
  from update_nut_Inr [OF nu]
  obtain p v where p: "np_multiply (Cs s6) (delta_CG1_sq s6) = Inr p"
    and v: "np_multiply p ?magS = Inr v"
    and s': "s' = s6\<lparr>nut := (nut s6)\<lparr>fn_vector := apply_bcs (fn_bcs (nut s6)) v\<rparr>\<rparr>"
    by blast
  have c_eq: "length (JLM ?s4) = length (JMM ?s4)
                \<longrightarrow> c = map2 (\<lambda>x y. min (x / y) (9 / 100)) (JLM ?s4) (JMM ?s4)"
    using clipped_ratio_Inr_same_length [OF c] by simp
  have v_eq: "length (Cs s6) = length (delta_CG1_sq s6) \<and> length ?magS = length (Cs s6)
                \<longrightarrow> v = map2 (*) (map2 (*) (Cs s6) (delta_CG1_sq s6)) ?magS"
  proof
    assume len: "length (Cs s6) = length (delta_CG1_sq s6) \<and> length ?magS = length (Cs s6)"
    then have "p = map2 (*) (Cs s6) (delta_CG1_sq s6)"
      using p np_multiply_same_length [of "Cs s6" "delta_CG1_sq s6"] by simp
    moreover from this len have "length p = length ?magS"
      by simp
    ultimately show "v = map2 (*) (map2 (*) (Cs s6) (delta_CG1_sq s6)) ?magS"
      using v np_multiply_same_length [of p ?magS] by simp
  qed
  from c c_eq s6_eq p v v_eq s' show ?thesis
    by blast
qed

lemma ex_full_step:
  "les_update ex_externals (ex_args 2) (ex_state [1 / 400, 1 / 625, 1 / 2500] [1, 1, 1])
     = Inr ((ex_state [1 / 400, 1 / 625, 1 / 2500] [1, 1, 1])
             \<lparr>nut := \<lparr>fn_vector = [0, 241 / 320000, 229 / 320000],
                      fn_bcs = [\<lparr>bc_value = 0, user_sub_domain = 1, bc_dofs = [0]\<rparr>]\<rparr>,
              Cs := [1 / 640, 241 / 160000, 229 / 160000],
              u_CG1 := [[1, 1, 1], [0, 0, 0]],
              u_filtered := [[1, 1, 1], [0, 0, 0]]\<rparr>)"
  unfolding les_update_def ex_tensors_and_average
  by (simp add: ex_defs update_Cs_def clipped_ratio_def update_nut_def
      np_divide_def np_multiply_def broadcast_def clip_max_def set_local_def
      tophatfilter_Cs_def filter_pass_def matvec_def apply_bcs_def bc_apply_def
      eval_nat_numeral)

lemma sqrt_of_squares:
  "sqrt (1 / 400) = 1 / 20" "sqrt (1 / 625) = 1 / 25" "sqrt (1 / 2500) = 1 / 50"
  by (rule real_sqrt_unique; simp add: power2_eq_square)+

text \<open>
  Claim C1. On a full step the coefficient field is to be \<open>sqrt (JLM/JMM)\<close>, clipped
  and filtered, and the viscosity \<open>Cs\<^sup>2 \<cdot> delta\<^sup>2 \<cdot> |S|\<close>. The comment and the docstring
  of lines 127 to 131 say the same: \<^verbatim>\<open>Cs\<close> is stored as \<^verbatim>\<open>sqrt(JLM/JMM)\<close> and the term
  of the viscosity is \<^verbatim>\<open>Cs**2\<close>. The code of lines 39, 132 and 137 takes no square
  root and no square. On the mesh of one triangle, with the ratios \<open>1/400\<close>, \<open>1/625\<close>
  and \<open>1/2500\<close> after the average (no clip at work) and \<open>magS = 2\<close>, the step stores
  the filtered ratio in \<^verbatim>\<open>Cs\<close> where the claim has the filtered square root
  \<open>[3/80, 59/1600, 57/1600]\<close>, and its viscosity away from the boundary node is
  neither the square of the claimed coefficient nor the square of the stored one times
  \<open>delta\<^sup>2 \<cdot> |S|\<close>.
\<close>

theorem Cs_is_not_the_square_root:
  "les_update ex_externals (ex_args 2) (ex_state [1 / 400, 1 / 625, 1 / 2500] [1, 1, 1])
     = Inr ((ex_state [1 / 400, 1 / 625, 1 / 2500] [1, 1, 1])
             \<lparr>nut := \<lparr>fn_vector = [0, 241 / 320000, 229 / 320000],
                      fn_bcs = [\<lparr>bc_value = 0, user_sub_domain = 1, bc_dofs = [0]\<rparr>]\<rparr>,
              Cs := [1 / 640, 241 / 160000, 229 / 160000],
              u_CG1 := [[1, 1, 1], [0, 0, 0]],
              u_filtered := [[1, 1, 1], [0, 0, 0]]\<rparr>)
   \<and> Cs_as_specified
        [[1 / 24, 1 / 48, 1 / 48], [1 / 48, 1 / 24, 1 / 48], [1 / 48, 1 / 48, 1 / 24]]
        [12, 12, 12] [1 / 400, 1 / 625, 1 / 2500] [1, 1, 1]
       = [3 / 80, 59 / 1600, 57 / 1600]
   \<and> [1 / 640, 241 / 160000, 229 / 160000] \<noteq> [3 / 80, 59 / 1600, 57 / 1600 :: real]
   \<and> nut_as_specified [3 / 80, 59 / 1600, 57 / 1600] [1 / 4, 1 / 4, 1 / 4] [2, 2, 2]
       = [9 / 12800, 3481 / 5120000, 3249 / 5120000]
   \<and> nut_as_specified [1 / 640, 241 / 160000, 229 / 160000] [1 / 4, 1 / 4, 1 / 4] [2, 2, 2]
       = [1 / 819200, 58081 / 51200000000, 52441 / 51200000000]
   \<and> (241 / 320000 :: real) \<noteq> 3481 / 5120000
   \<and> (241 / 320000 :: real) \<noteq> 58081 / 51200000000"
proof -
  have "Cs_as_specified
        [[1 / 24, 1 / 48, 1 / 48], [1 / 48, 1 / 24, 1 / 48], [1 / 48, 1 / 48, 1 / 24]]
        [12, 12, 12] [1 / 400, 1 / 625, 1 / 2500] [1, 1, 1]
       = [3 / 80, 59 / 1600, 57 / 1600]"
    by (simp add: Cs_as_specified_def sqrt_of_squares clip_max_def filter_pass_def matvec_def
        eval_nat_numeral)
  moreover have "nut_as_specified [3 / 80, 59 / 1600, 57 / 1600] [1 / 4, 1 / 4, 1 / 4] [2, 2, 2]
       = [9 / 12800, 3481 / 5120000, 3249 / 5120000]"
    by (simp add: nut_as_specified_def power2_eq_square)
  moreover have "nut_as_specified [1 / 640, 241 / 160000, 229 / 160000] [1 / 4, 1 / 4, 1 / 4] [2, 2, 2]
       = [1 / 819200, 58081 / 51200000000, 52441 / 51200000000]"
    by (simp add: nut_as_specified_def power2_eq_square)
  ultimately show ?thesis
    using ex_full_step by simp
qed

section \<open>The test-filter ratio\<close>

text \<open>
  Claim C7, as amended. The ratio handed to \<^verbatim>\<open>compute_Mij\<close> is the literal \<open>2.0\<close> of
  line 121, a positive real fixed inside \<open>les_update\<close>: no setting and no argument
  sets it, and it is not inferred from the data. Every full step, whatever the bundle,
  the velocity, the step index and the settings dictionary, is the run of
  \<^verbatim>\<open>dyn_u_ops\<close> and \<^verbatim>\<open>compute_Lij\<close>, then \<^verbatim>\<open>compute_Mij\<close> with \<open>alphaval = 2\<close>, then the
  average, the coefficient update and the viscosity update with the \<^verbatim>\<open>magS\<close> of that
  call; what \<^verbatim>\<open>compute_Mij\<close> would return at any other ratio has no effect on the step.
\<close>

theorem alpha_fixed_at_two:
  assumes "DynamicSmagorinsky a ''Cs_comp_step'' = Some k" and "k \<noteq> 0"
    and "tstep a mod k = 0"
  shows "les_update X a s
           = (case update_Cs X a
                     (lagrange_average X a
                        (snd (compute_Mij X 2 a (compute_Lij X a (dyn_u_ops X a s))))) of
                Inl e \<Rightarrow> Inl e
              | Inr s6 \<Rightarrow>
                  update_nut (fst (compute_Mij X 2 a (compute_Lij X a (dyn_u_ops X a s)))) s6)
         \<and> (\<forall>f. f 2 = compute_Mij X 2
                \<longrightarrow> les_update (X\<lparr>compute_Mij := f\<rparr>) a s = les_update X a s)
         \<and> (0::real) < 2"
proof -
  have t: "tensors_and_average X a s
             = (fst (compute_Mij X 2 a (compute_Lij X a (dyn_u_ops X a s))),
                lagrange_average X a
                  (snd (compute_Mij X 2 a (compute_Lij X a (dyn_u_ops X a s)))))"
    by (simp add: tensors_and_average_def Let_def)
  have one: "les_update X a s
           = (case update_Cs X a
                     (lagrange_average X a
                        (snd (compute_Mij X 2 a (compute_Lij X a (dyn_u_ops X a s))))) of
                Inl e \<Rightarrow> Inl e
              | Inr s6 \<Rightarrow>
                  update_nut (fst (compute_Mij X 2 a (compute_Lij X a (dyn_u_ops X a s)))) s6)"
    unfolding les_update_def using assms by (simp add: t split: sum.splits)
  have two: "les_update (X\<lparr>compute_Mij := f\<rparr>) a s = les_update X a s"
    if f: "f 2 = compute_Mij X 2" for f
  proof -
    have "tensors_and_average (X\<lparr>compute_Mij := f\<rparr>) a s = tensors_and_average X a s"
      by (simp add: tensors_and_average_def f)
    moreover have "update_Cs (X\<lparr>compute_Mij := f\<rparr>) a s' = update_Cs X a s'" for s'
      by (simp add: update_Cs_def split: sum.splits)
    ultimately show ?thesis
      unfolding les_update_def by (simp split: option.splits)
  qed
  from one two show ?thesis
    by simp
qed

text \<open>
  In the example callables \<^verbatim>\<open>compute_Mij\<close> returns the ratio it receives as \<^verbatim>\<open>magS\<close>
  at every node, so that \<^verbatim>\<open>magS\<close> shows the ratio of the call.
\<close>

lemma ex_tensors_and_average_any:
  "tensors_and_average ex_externals (ex_args t\<lparr>DynamicSmagorinsky := D\<rparr>) (ex_state jl jm)
     = ([2, 2, 2],
        (ex_state (map (\<lambda>x. max x (1 / 10 ^ 32)) jl) (map (\<lambda>x. max x (1 / 10 ^ 32)) jm))
          \<lparr>u_CG1 := [[1, 1, 1], [0, 0, 0]], u_filtered := [[1, 1, 1], [0, 0, 0]]\<rparr>)"
  unfolding tensors_and_average_def
  by (simp add: ex_defs filter_pass_def matvec_def)

theorem alpha_fixed_at_two_witness:
  "DynamicSmagorinsky (ex_args 2) ''Cs_comp_step'' = Some 2
   \<and> tstep (ex_args 2) mod 2 = 0
   \<and> compute_Mij ex_externals 2 (ex_args 2)
        (compute_Lij ex_externals (ex_args 2)
           (dyn_u_ops ex_externals (ex_args 2) (ex_state [1 / 400, 1 / 625, 1 / 2500] [1, 1, 1])))
       = ([2, 2, 2],
          (ex_state [1 / 400, 1 / 625, 1 / 2500] [1, 1, 1])
            \<lparr>u_CG1 := [[1, 1, 1], [0, 0, 0]], u_filtered := [[1, 1, 1], [0, 0, 0]]\<rparr>)
   \<and> (case update_Cs ex_externals (ex_args 2)
               (lagrange_average ex_externals (ex_args 2)
                  (snd (compute_Mij ex_externals 2 (ex_args 2)
                          (compute_Lij ex_externals (ex_args 2)
                             (dyn_u_ops ex_externals (ex_args 2)
                                (ex_state [1 / 400, 1 / 625, 1 / 2500] [1, 1, 1])))))) of
          Inl e \<Rightarrow> Inl e
        | Inr s6 \<Rightarrow>
            update_nut
              (fst (compute_Mij ex_externals 2 (ex_args 2)
                      (compute_Lij ex_externals (ex_args 2)
                         (dyn_u_ops ex_externals (ex_args 2)
                            (ex_state [1 / 400, 1 / 625, 1 / 2500] [1, 1, 1])))))
              s6)
       = Inr ((ex_state [1 / 400, 1 / 625, 1 / 2500] [1, 1, 1])
               \<lparr>nut := \<lparr>fn_vector = [0, 241 / 320000, 229 / 320000],
                        fn_bcs = [\<lparr>bc_value = 0, user_sub_domain = 1, bc_dofs = [0]\<rparr>]\<rparr>,
                Cs := [1 / 640, 241 / 160000, 229 / 160000],
                u_CG1 := [[1, 1, 1], [0, 0, 0]],
                u_filtered := [[1, 1, 1], [0, 0, 0]]\<rparr>)"
proof -
  let ?a = "ex_args 2"
  let ?s = "ex_state [1 / 400, 1 / 625, 1 / 2500] [1, 1, 1]"
  have h1: "DynamicSmagorinsky ?a ''Cs_comp_step'' = Some 2"
    by (simp add: ex_args_def)
  have h2: "(2::int) \<noteq> 0"
    by simp
  have h3: "tstep ?a mod 2 = 0"
    by (simp add: ex_args_def)
  have m: "compute_Mij ex_externals 2 ?a (compute_Lij ex_externals ?a (dyn_u_ops ex_externals ?a ?s))
       = ([2, 2, 2],
          ?s\<lparr>u_CG1 := [[1, 1, 1], [0, 0, 0]], u_filtered := [[1, 1, 1], [0, 0, 0]]\<rparr>)"
    by (simp add: ex_defs filter_pass_def matvec_def)
  from alpha_fixed_at_two [OF h1 h2 h3, of ex_externals ?s] ex_full_step
  have "(case update_Cs ex_externals ?a
               (lagrange_average ex_externals ?a
                  (snd (compute_Mij ex_externals 2 ?a
                          (compute_Lij ex_externals ?a (dyn_u_ops ex_externals ?a ?s))))) of
          Inl e \<Rightarrow> Inl e
        | Inr s6 \<Rightarrow>
            update_nut
              (fst (compute_Mij ex_externals 2 ?a
                      (compute_Lij ex_externals ?a (dyn_u_ops ex_externals ?a ?s))))
              s6)
       = Inr (?s\<lparr>nut := \<lparr>fn_vector = [0, 241 / 320000, 229 / 320000],
                        fn_bcs = [\<lparr>bc_value = 0, user_sub_domain = 1, bc_dofs = [0]\<rparr>]\<rparr>,
                Cs := [1 / 640, 241 / 160000, 229 / 160000],
                u_CG1 := [[1, 1, 1], [0, 0, 0]],
                u_filtered := [[1, 1, 1], [0, 0, 0]]\<rparr>)"
    by simp
  with h1 h3 m show ?thesis
    by blast
qed

text \<open>
  Claim C7 as stated fails: the ratio is not on the configuration surface. A settings
  dictionary that gives \<open>alpha\<close> the value \<open>3\<close> changes nothing: the call still
  receives \<open>2\<close> and the step is the one of the dictionary without the entry.
\<close>

theorem alpha_not_configurable:
  "DynamicSmagorinsky (ex_args 2\<lparr>DynamicSmagorinsky := [''Cs_comp_step'' \<mapsto> 2, ''alpha'' \<mapsto> 3]\<rparr>)
     ''alpha'' = Some 3
   \<and> fst (tensors_and_average ex_externals
            (ex_args 2\<lparr>DynamicSmagorinsky := [''Cs_comp_step'' \<mapsto> 2, ''alpha'' \<mapsto> 3]\<rparr>)
            (ex_state [1 / 400, 1 / 625, 1 / 2500] [1, 1, 1]))
       = [2, 2, 2]
   \<and> [2, 2, 2] \<noteq> [3, 3, 3 :: real]
   \<and> les_update ex_externals
        (ex_args 2\<lparr>DynamicSmagorinsky := [''Cs_comp_step'' \<mapsto> 2, ''alpha'' \<mapsto> 3]\<rparr>)
        (ex_state [1 / 400, 1 / 625, 1 / 2500] [1, 1, 1])
       = les_update ex_externals (ex_args 2) (ex_state [1 / 400, 1 / 625, 1 / 2500] [1, 1, 1])
   \<and> les_update ex_externals (ex_args 2) (ex_state [1 / 400, 1 / 625, 1 / 2500] [1, 1, 1])
       = Inr ((ex_state [1 / 400, 1 / 625, 1 / 2500] [1, 1, 1])
               \<lparr>nut := \<lparr>fn_vector = [0, 241 / 320000, 229 / 320000],
                        fn_bcs = [\<lparr>bc_value = 0, user_sub_domain = 1, bc_dofs = [0]\<rparr>]\<rparr>,
                Cs := [1 / 640, 241 / 160000, 229 / 160000],
                u_CG1 := [[1, 1, 1], [0, 0, 0]],
                u_filtered := [[1, 1, 1], [0, 0, 0]]\<rparr>)"
proof -
  let ?a = "ex_args 2\<lparr>DynamicSmagorinsky := [''Cs_comp_step'' \<mapsto> 2, ''alpha'' \<mapsto> 3]\<rparr>"
  let ?s = "ex_state [1 / 400, 1 / 625, 1 / 2500] [1, 1, 1]"
  have "les_update ex_externals ?a ?s
          = Inr (?s\<lparr>nut := \<lparr>fn_vector = [0, 241 / 320000, 229 / 320000],
                        fn_bcs = [\<lparr>bc_value = 0, user_sub_domain = 1, bc_dofs = [0]\<rparr>]\<rparr>,
                Cs := [1 / 640, 241 / 160000, 229 / 160000],
                u_CG1 := [[1, 1, 1], [0, 0, 0]],
                u_filtered := [[1, 1, 1], [0, 0, 0]]\<rparr>)"
    unfolding les_update_def ex_tensors_and_average_any
    by (simp add: ex_defs update_Cs_def clipped_ratio_def update_nut_def
        np_divide_def np_multiply_def broadcast_def clip_max_def set_local_def
        tophatfilter_Cs_def filter_pass_def matvec_def apply_bcs_def bc_apply_def
        eval_nat_numeral)
  then show ?thesis
    using ex_full_step unfolding ex_tensors_and_average_any by simp
qed


end
